theory Spec2Isabelle
  imports Complex_Main
begin

section \<open>The program\<close>

subsection \<open>Pagination windows\<close>

text \<open>
  Page numbers are JavaScript numbers, that is double-precision floating-point numbers,
  which the backend delivers as whole numbers (\<open>Pagination.currentPage\<close>,
  \<open>Pagination.totalPages\<close>). A whole number is modelled as an integer, and every \<open>+\<close>
  and \<open>-\<close> of the source gives the double nearest to the exact result, a tie going to
  the double with the even significand. Every whole number up to \<open>2^53\<close> in magnitude
  is a double, so the arithmetic is exact there; beyond, it rounds. \<open>Math.max\<close>,
  \<open>Math.min\<close> and the comparisons are exact on doubles. The largest double is not
  modelled: the code adds at most 5 to a number it was given, and that sum rounds back
  to a finite double.
\<close>

text \<open>
  The number of low-order bits that a natural number loses in the 53-bit significand of
  a double: none below \<open>2^53\<close>, and one more than half the number loses otherwise.
\<close>

function dropped_bits :: "int \<Rightarrow> nat" where
  "dropped_bits n = (if n < 2 ^ 53 then 0 else Suc (dropped_bits (n div 2)))"
  by pat_completeness auto
termination
  by (relation "measure nat") auto

declare dropped_bits.simps [simp del]

text \<open>
  The double nearest to a natural number \<open>n\<close>: with \<open>u\<close> the weight of the last bit
  kept, \<open>n\<close> lies between the doubles \<open>q * u\<close> and \<open>(q + 1) * u\<close>; the nearer one is
  taken, and from the middle the one with the even multiplier.
\<close>

definition nearest_double :: "int \<Rightarrow> int" where
  "nearest_double n =
     (let u = 2 ^ dropped_bits n; q = n div u; r = n mod u
      in if 2 * r < u then q * u
         else if u < 2 * r then (q + 1) * u
         else if even q then q * u
         else (q + 1) * u)"

definition double_round :: "int \<Rightarrow> int" where
  "double_round x = (if 0 \<le> x then nearest_double x else - nearest_double (- x))"

text \<open>\<open>a + b\<close> and \<open>a - b\<close> on whole-number doubles.\<close>

definition js_add :: "int \<Rightarrow> int \<Rightarrow> int" where
  "js_add a b = double_round (a + b)"

definition js_sub :: "int \<Rightarrow> int \<Rightarrow> int" where
  "js_sub a b = double_round (a - b)"

text \<open>
  \<open>Array.from({ length: n }, (_, i) => f(i))\<close>: the array \<open>[f(0), ..., f(n - 1)]\<close>.
  JavaScript clamps a negative length to zero, which is what \<open>nat\<close> does.
\<close>

definition array_from :: "int \<Rightarrow> (nat \<Rightarrow> 'a) \<Rightarrow> 'a list" where
  "array_from len f = map f [0..<nat len]"

text \<open>
  \<open>pages\<close> of the \<open>Pagination\<close> component of the add-ons page
  (\<open>src/unnamed/part_000\<close>, lines 293 to 300). The source assigns \<open>start\<close> twice;
  the second binding shadows the first here as the assignment overwrites it there.
  \<open>start + windowSize - 1\<close> is \<open>(start + windowSize) - 1\<close>, each step rounded, and so
  for the other two sums.
\<close>

definition Pagination_pages_addons :: "int \<Rightarrow> int \<Rightarrow> int list" where
  "Pagination_pages_addons currentPage totalPages =
     (let windowSize = 5;
          half = \<lfloor>real_of_int windowSize / 2\<rfloor>;
          start = max 1 (js_sub currentPage half);
          end = min totalPages (js_sub (js_add start windowSize) 1);
          start = max 1 (min start (js_add (js_sub end windowSize) 1))
      in array_from (js_add (js_sub end start) 1) (\<lambda>i. js_add start (int i)))"

text \<open>
  \<open>pages\<close> of the second \<open>Pagination\<close> component of the add-ons page, the one that
  takes the whole \<open>pagination\<close> object (\<open>src/unnamed/part_000\<close>, lines 677 to 685).
\<close>

definition Pagination_pages_addons2 :: "int \<Rightarrow> int \<Rightarrow> int list" where
  "Pagination_pages_addons2 currentPage totalPages =
     (let windowSize = 5;
          half = \<lfloor>real_of_int windowSize / 2\<rfloor>;
          start = max 1 (js_sub currentPage half);
          end = min totalPages (js_sub (js_add start windowSize) 1);
          start = max 1 (min start (js_add (js_sub end windowSize) 1))
      in array_from (js_add (js_sub end start) 1) (\<lambda>i. js_add start (int i)))"

text \<open>
  \<open>pages\<close> of the server-side \<open>Pagination\<close> component of the workspace page that
  lists the properties (\<open>src/unnamed/part_001\<close>, lines 190 to 193). There is no second
  assignment to \<open>start\<close> here.
\<close>

definition Pagination_pages_workspace :: "int \<Rightarrow> int \<Rightarrow> int list" where
  "Pagination_pages_workspace currentPage totalPages =
     (let windowSize = 5;
          start = max 1 (js_sub currentPage \<lfloor>real_of_int windowSize / 2\<rfloor>);
          end = min totalPages (js_sub (js_add start windowSize) 1)
      in array_from (js_add (js_sub end start) 1) (\<lambda>i. js_add start (int i)))"

text \<open>
  The window as section 4.1 of the specification words it, in exact whole numbers:
  \<open>half = floor(windowSize/2)\<close>; \<open>start = max(1, currentPage - half)\<close>;
  \<open>end = min(totalPages, start + windowSize - 1)\<close>; re-clamp
  \<open>start = max(1, min(start, end - windowSize + 1))\<close>; emit \<open>[start..end]\<close>.
  This definition follows the specification, not the source.
\<close>

definition computeWindow :: "int \<Rightarrow> int \<Rightarrow> int \<Rightarrow> int list" where
  "computeWindow currentPage totalPages windowSize =
     (let half = \<lfloor>real_of_int windowSize / 2\<rfloor>;
          start0 = max 1 (currentPage - half);
          end = min totalPages (start0 + windowSize - 1);
          start = max 1 (min start0 (end - windowSize + 1))
      in [start..end])"


subsection \<open>JavaScript numbers and strings\<close>

text \<open>
  For the status panel and the forms a JavaScript number is a not-a-number value, an
  infinity or a finite value. Finite values are modelled as reals and a decimal literal
  of the source (\<open>0.7\<close>, \<open>1.5\<close>,
  \<open>80\<close>, \<open>95\<close>) as the rational it writes: the rounding of literals and of parsed
  strings to double precision is not modelled. Comparisons with a not-a-number operand
  are false, as in JavaScript.
\<close>

datatype jsnum = NaN | NegInfinity | Num real | Infinity

fun js_lt :: "jsnum \<Rightarrow> jsnum \<Rightarrow> bool" where
  "js_lt NaN _ = False"
| "js_lt _ NaN = False"
| "js_lt (Num a) (Num b) = (a < b)"
| "js_lt NegInfinity NegInfinity = False"
| "js_lt NegInfinity _ = True"
| "js_lt Infinity _ = False"
| "js_lt (Num a) Infinity = True"
| "js_lt (Num a) NegInfinity = False"

fun js_ge :: "jsnum \<Rightarrow> jsnum \<Rightarrow> bool" where
  "js_ge NaN _ = False"
| "js_ge _ NaN = False"
| "js_ge (Num a) (Num b) = (b \<le> a)"
| "js_ge Infinity _ = True"
| "js_ge NegInfinity NegInfinity = True"
| "js_ge NegInfinity _ = False"
| "js_ge (Num a) Infinity = False"
| "js_ge (Num a) NegInfinity = True"

text \<open>\<open>isFinite\<close> and \<open>Number.isFinite\<close> on a number.\<close>

fun isFinite :: "jsnum \<Rightarrow> bool" where
  "isFinite (Num a) = True"
| "isFinite _ = False"

text \<open>
  \<open>x || d\<close> for a string \<open>x\<close> that may be missing: \<open>undefined\<close>, \<open>null\<close> and the
  empty string are falsy and give the default.
\<close>

definition js_or :: "string option \<Rightarrow> string \<Rightarrow> string" where
  "js_or x d = (case x of None \<Rightarrow> d | Some s \<Rightarrow> if s = [] then d else s)"

text \<open>
  Strings are lists of 8-bit characters, so the model covers the code units up to
  U+00FF. \<open>String.prototype.trim\<close> strips white space and line terminators at both
  ends; in this range they are tab, line feed, vertical tab, form feed, carriage return,
  space and the no-break space.
\<close>

definition isWhiteSpace :: "char \<Rightarrow> bool" where
  "isWhiteSpace c =
     (c \<in> set [CHR 0x09, CHR 0x0A, CHR 0x0B, CHR 0x0C, CHR 0x0D, CHR 0x20, CHR 0xA0])"

definition trim :: "string \<Rightarrow> string" where
  "trim s = rev (dropWhile isWhiteSpace (rev (dropWhile isWhiteSpace s)))"

text \<open>
  \<open>/pat/i.test(s)\<close> for a pattern of plain letters and spaces: some substring of \<open>s\<close>
  equals \<open>pat\<close> up to the case of the letters A to Z. (The \<open>i\<close> flag compares
  upper-cased code units and never maps a code unit above 127 into ASCII.)
\<close>

definition lower :: "char \<Rightarrow> char" where
  "lower c =
     (case map_of (zip ''ABCDEFGHIJKLMNOPQRSTUVWXYZ'' ''abcdefghijklmnopqrstuvwxyz'') c of
        Some d \<Rightarrow> d
      | None \<Rightarrow> c)"

fun starts_with_ci :: "string \<Rightarrow> string \<Rightarrow> bool" where
  "starts_with_ci [] s = True"
| "starts_with_ci (p # ps) [] = False"
| "starts_with_ci (p # ps) (c # cs) = (lower c = lower p \<and> starts_with_ci ps cs)"

fun regex_test_i :: "string \<Rightarrow> string \<Rightarrow> bool" where
  "regex_test_i pat [] = starts_with_ci pat []"
| "regex_test_i pat (c # cs) = (starts_with_ci pat (c # cs) \<or> regex_test_i pat cs)"


subsection \<open>Status panel\<close>

text \<open>
  \<open>ApiStatusResponse["data"]\<close> of \<open>src/app/(auth)/layout.tsx\<close>. The type declares
  every field present, but \<open>toStatuses\<close> guards each read with \<open>||\<close> or \<open>?.\<close>, so
  the fields it guards are optional here.
\<close>

record memory_info =
  totalGB :: string
  usedGB :: string
  usagePercent :: string

record webhook_status =
  hook_success :: bool
  hook_message :: string
  webhookId :: "string option"
  webhookUrl :: "string option"
  events :: "string list option"

record api_data =
  server :: "string option"
  dbStatus :: "string option"
  cpuLoad :: "string option"
  memory :: "memory_info option"
  paymentWebhookStatus :: "webhook_status option"

datatype level = Ok | Warn | Bad

datatype variant = Success | Warning | Destructive

text \<open>\<open>SecurityStatus\<close> of \<open>@/types/dashboard\<close>, with the four fields the panel fills.\<close>

record SecurityStatus =
  st_title :: string
  st_value :: string
  st_status :: string
  st_variant :: variant

definition pickVariant :: "level \<Rightarrow> variant" where
  "pickVariant level =
     (if level = Ok then Success
      else if level = Warn then Warning
      else Destructive)"

text \<open>The constants of \<open>toStatuses\<close>, one definition for each.\<close>

definition cpuLevel :: "jsnum \<Rightarrow> level" where
  "cpuLevel cpu = (if js_lt cpu (Num 0.7) then Ok else if js_lt cpu (Num 1.5) then Warn else Bad)"

definition memLevel :: "jsnum \<Rightarrow> level" where
  "memLevel memPct =
     (if js_lt memPct (Num 80) then Ok else if js_lt memPct (Num 95) then Warn else Bad)"

definition dbConnected :: "api_data \<Rightarrow> bool" where
  "dbConnected api = regex_test_i ''connected'' (js_or (dbStatus api) [])"

definition dbLevel :: "api_data \<Rightarrow> level" where
  "dbLevel api = (if dbConnected api then Ok else Bad)"

definition serverUp :: "api_data \<Rightarrow> bool" where
  "serverUp api =
     (regex_test_i ''server started'' (js_or (server api) [])
      \<or> regex_test_i ''started'' (js_or (server api) []))"

definition serverLevel :: "api_data \<Rightarrow> level" where
  "serverLevel api = (if serverUp api then Ok else Bad)"

definition hookOk :: "api_data \<Rightarrow> bool" where
  "hookOk api = (case paymentWebhookStatus api of None \<Rightarrow> False | Some h \<Rightarrow> hook_success h)"

definition hookLevel :: "api_data \<Rightarrow> level" where
  "hookLevel api = (if hookOk api then Ok else Bad)"

text \<open>
  \<open>toStatuses\<close>. The built-in conversions it calls are parameters: \<open>parseFloat\<close>,
  \<open>String\<close> on a number (\<open>numToString\<close>) and \<open>toFixed(0)\<close> (\<open>toFixed0\<close>). The
  \<open>console.log\<close> call has no effect on the result and is left out.
\<close>

definition toStatuses ::
  "(string \<Rightarrow> jsnum) \<Rightarrow> (jsnum \<Rightarrow> string) \<Rightarrow> (jsnum \<Rightarrow> string) \<Rightarrow> api_data
     \<Rightarrow> SecurityStatus list" where
  "toStatuses parseFloat numToString toFixed0 api =
     (let cpu = parseFloat (js_or (cpuLoad api) ''0'');
          memPct = parseFloat (js_or (map_option usagePercent (memory api)) ''0'')
      in [ \<lparr> st_title = ''SERVER'',
             st_value = (if serverUp api then ''ONLINE'' else ''OFFLINE''),
             st_status = js_or (server api) ''No server info'',
             st_variant = pickVariant (serverLevel api) \<rparr>,
           \<lparr> st_title = ''DATABASE'',
             st_value = (if dbConnected api then ''CONNECTED'' else ''DISCONNECTED''),
             st_status = js_or (dbStatus api) ''No DB info'',
             st_variant = pickVariant (dbLevel api) \<rparr>,
           \<lparr> st_title = ''CPU LOAD'',
             st_value = (if isFinite cpu then numToString cpu else ''N/A''),
             st_status = ''Lower is better'',
             st_variant = pickVariant (cpuLevel cpu) \<rparr>,
           \<lparr> st_title = ''MEMORY'',
             st_value = (case memory api of
                           Some m \<Rightarrow> usedGB m @ ''/'' @ totalGB m @ '' GB''
                         | None \<Rightarrow> ''N/A''),
             st_status = (case memory api of
                            Some m \<Rightarrow> toFixed0 memPct @ ''% used''
                          | None \<Rightarrow> ''No memory info''),
             st_variant = pickVariant (memLevel memPct) \<rparr>,
           \<lparr> st_title = ''WEBHOOK'',
             st_value = (if hookOk api then ''ACTIVE'' else ''INACTIVE''),
             st_status =
               js_or (map_option hook_message (paymentWebhookStatus api))
                 (js_or (Option.bind (paymentWebhookStatus api) webhookUrl) ''No webhook info''),
             st_variant = pickVariant (hookLevel api) \<rparr> ])"


subsection \<open>Add-on forms\<close>

text \<open>
  What a submit handler does besides updating the component state: the requests it
  sends through \<open>apiClient\<close> and the redirect it schedules with \<open>setTimeout\<close>, in the
  order of the calls.
\<close>

record create_body =
  body_title :: string
  body_description :: string
  body_value :: jsnum

record edit_body =
  addOnId :: string
  patch_title :: string
  patch_description :: string
  patch_value :: jsnum
  patch_status :: string

datatype effect =
    Post string create_body
  | Patch string edit_body
  | ReplaceAfter nat string

text \<open>
  The outcome of the awaited request: it resolves, or it rejects with an error object
  whose \<open>message\<close> may be missing.
\<close>

datatype api_result = Resolved | Rejected "string option"

text \<open>
  The create form (\<open>src/app/(root)/addons/create/page.tsx\<close>): \<open>FormState\<close> and the
  state hooks of \<open>CreateAddons\<close> that \<open>onSubmit\<close> writes.
\<close>

record FormState =
  form_title :: string
  form_description :: string
  form_value :: string

record create_state =
  form :: FormState
  error :: "string option"
  success :: "string option"
  submitting :: bool

text \<open>
  \<open>onSubmit\<close>, lines 31 to 65. \<open>Number\<close> on a string is a parameter; \<open>reply\<close> is the
  outcome of the request and is read only where the source awaits it. The result is the
  state after all the \<open>set...\<close> calls of the handler, and its effects.
\<close>

definition onSubmit ::
  "(string \<Rightarrow> jsnum) \<Rightarrow> api_result \<Rightarrow> create_state \<Rightarrow> create_state \<times> effect list" where
  "onSubmit Number reply s0 =
     (let s1 = s0\<lparr>error := None\<rparr>;
          s2 = s1\<lparr>success := None\<rparr>;
          title = trim (form_title (form s0));
          description = trim (form_description (form s0));
          valueNum = Number (form_value (form s0))
      in if title = [] then (s2\<lparr>error := Some ''TITLE_IS_REQUIRED''\<rparr>, [])
         else if description = [] then (s2\<lparr>error := Some ''DESCRIPTION_IS_REQUIRED''\<rparr>, [])
         else if \<not> isFinite valueNum \<or> js_lt valueNum (Num 0)
           then (s2\<lparr>error := Some ''VALUE_MUST_BE_NON_NEGATIVE_NUMBER''\<rparr>, [])
         else
           (let s3 = s2\<lparr>submitting := True\<rparr>;
                request = Post ''/api/addons/create''
                            \<lparr> body_title = title,
                              body_description = description,
                              body_value = valueNum \<rparr>
            in case reply of
                 Resolved \<Rightarrow>
                   (s3\<lparr>success := Some ''ADDON_CREATED_SUCCESSFULLY'', submitting := False\<rparr>,
                    [request, ReplaceAfter 1500 ''/addons''])
               | Rejected message \<Rightarrow>
                   (s3\<lparr>error := Some (js_or message ''FAILED_TO_CREATE_ADDON''),
                       submitting := False\<rparr>,
                    [request])))"

text \<open>
  The edit form (\<open>src/app/(root)/addons/edit/page.tsx\<close>). The URL query parameters are
  a map (\<open>sp.get\<close> gives \<open>null\<close> for a missing key); the initial values are read from
  them on every render, lines 12 to 16.
\<close>

definition edit_id :: "(string \<rightharpoonup> string) \<Rightarrow> string" where
  "edit_id sp = js_or (sp ''id'') []"

definition initialTitle :: "(string \<rightharpoonup> string) \<Rightarrow> string" where
  "initialTitle sp = js_or (sp ''title'') []"

definition initialDescription :: "(string \<rightharpoonup> string) \<Rightarrow> string" where
  "initialDescription sp = js_or (sp ''description'') []"

definition initialValue :: "(string \<rightharpoonup> string) \<Rightarrow> string" where
  "initialValue sp = js_or (sp ''value'') []"

definition initialStatus :: "(string \<rightharpoonup> string) \<Rightarrow> string" where
  "initialStatus sp = js_or (sp ''status'') ''ACTIVE''"

record edit_state =
  edit_title :: string
  edit_description :: string
  edit_value :: string
  edit_status :: string
  edit_error :: "string option"
  saving :: bool

text \<open>The state hooks at the first render, lines 18 to 23.\<close>

definition edit_initial_state :: "(string \<rightharpoonup> string) \<Rightarrow> edit_state" where
  "edit_initial_state sp =
     \<lparr> edit_title = initialTitle sp,
       edit_description = initialDescription sp,
       edit_value = initialValue sp,
       edit_status = initialStatus sp,
       edit_error = None,
       saving = False \<rparr>"

text \<open>
  \<open>submit\<close>, lines 25 to 56. The \<open>catch\<close> block reads \<open>err.message\<close>; the rejection
  is taken to carry an object.
\<close>

definition submit ::
  "(string \<Rightarrow> jsnum) \<Rightarrow> (string \<rightharpoonup> string) \<Rightarrow> api_result \<Rightarrow> edit_state
     \<Rightarrow> edit_state \<times> effect list" where
  "submit Number sp reply s0 =
     (let s1 = s0\<lparr>edit_error := None\<rparr>
      in if edit_id sp = [] then (s1\<lparr>edit_error := Some ''INVALID_ADDON_ID''\<rparr>, [])
         else
           (let valueNum = Number (edit_value s0)
            in if \<not> isFinite valueNum \<or> js_lt valueNum (Num 0)
                 then (s1\<lparr>edit_error := Some ''VALUE_MUST_BE_NON_NEGATIVE_NUMBER''\<rparr>, [])
               else
                 (let s2 = s1\<lparr>saving := True\<rparr>;
                      request = Patch ''/api/addons/edit''
                                  \<lparr> addOnId = edit_id sp,
                                    patch_title = edit_title s0,
                                    patch_description = edit_description s0,
                                    patch_value = valueNum,
                                    patch_status = edit_status s0 \<rparr>
                  in case reply of
                       Resolved \<Rightarrow>
                         (s2\<lparr>saving := False\<rparr>, [request, ReplaceAfter 1000 ''/addons''])
                     | Rejected message \<Rightarrow>
                         (s2\<lparr>edit_error := Some (js_or message ''UPDATE_FAILED''),
                             saving := False\<rparr>,
                          [request]))))"

text \<open>\<open>hasChanges\<close>, lines 58 to 62, and the \<open>disabled\<close> attribute of the submit button, line 230.\<close>

definition hasChanges :: "(string \<rightharpoonup> string) \<Rightarrow> edit_state \<Rightarrow> bool" where
  "hasChanges sp s =
     (edit_title s \<noteq> initialTitle sp
      \<or> edit_description s \<noteq> initialDescription sp
      \<or> edit_value s \<noteq> initialValue sp
      \<or> edit_status s \<noteq> initialStatus sp)"

definition submit_disabled :: "(string \<rightharpoonup> string) \<Rightarrow> edit_state \<Rightarrow> bool" where
  "submit_disabled sp s = (saving s \<or> \<not> hasChanges sp s)"


section \<open>Verification\<close>

subsection \<open>Pagination: rounding to a double\<close>

lemma half_window: "\<lfloor>real_of_int 5 / 2\<rfloor> = 2"
  by simp

text \<open>Some roundings above \<open>2^53\<close> and above \<open>2^55\<close>, ties included.\<close>

lemma double_round_examples:
  "double_round 9007199254740993 = 9007199254740992"
  "double_round 9007199254740995 = 9007199254740996"
  "double_round 9007199254740997 = 9007199254740996"
  "double_round (- 9007199254740993) = - 9007199254740992"
  "double_round 36028797018963972 = 36028797018963968"
  "double_round 36028797018963980 = 36028797018963984"
  by code_simp+

lemma dropped_bits_small: "n < 2 ^ 53 \<Longrightarrow> dropped_bits n = 0"
  by (simp add: dropped_bits.simps)

lemma nearest_double_small: "n < 2 ^ 53 \<Longrightarrow> nearest_double n = n"
  by (simp add: nearest_double_def dropped_bits_small)

lemma nearest_double_2_53: "nearest_double (2 ^ 53) = 2 ^ 53"
  by code_simp

lemma nearest_double_exact: "n \<le> 2 ^ 53 \<Longrightarrow> nearest_double n = n"
  using nearest_double_small [of n] nearest_double_2_53 by (cases "n = 2 ^ 53") auto

text \<open>Up to \<open>2^53\<close> in magnitude nothing is rounded.\<close>

lemma double_round_exact: "\<bar>x\<bar> \<le> 2 ^ 53 \<Longrightarrow> double_round x = x"
  by (auto simp add: double_round_def nearest_double_exact)

lemma dropped_bits_quotient:
  "2 ^ 53 \<le> n \<Longrightarrow> 0 < dropped_bits n \<and> 2 ^ 52 \<le> n div 2 ^ dropped_bits n"
proof (induction n rule: dropped_bits.induct)
  case (1 n)
  from 1(2) have unf: "dropped_bits n = Suc (dropped_bits (n div 2))"
    by (subst dropped_bits.simps) simp
  show ?case
  proof (cases "n div 2 < 2 ^ 53")
    case True
    then have "dropped_bits (n div 2) = 0" by (rule dropped_bits_small)
    with unf 1(2) show ?thesis by simp
  next
    case False
    with 1 have "2 ^ 52 \<le> (n div 2) div 2 ^ dropped_bits (n div 2)" by simp
    with unf show ?thesis by (simp add: zdiv_zmult2_eq)
  qed
qed

lemma nearest_double_large:
  assumes "2 ^ 53 \<le> n"
  shows "2 ^ 53 \<le> nearest_double n"
proof -
  define k where "k = dropped_bits n"
  from assms have k: "0 < k" and q: "2 ^ 52 \<le> n div 2 ^ k"
    using dropped_bits_quotient [of n] by (simp_all add: k_def)
  from k have "(2::int) \<le> 2 ^ k"
    by (cases k) simp_all
  with q have "(2::int) ^ 52 * 2 \<le> (n div 2 ^ k) * 2 ^ k"
    by (intro mult_mono) simp_all
  then have low: "(2::int) ^ 53 \<le> (n div 2 ^ k) * 2 ^ k" by simp
  have "(n div 2 ^ k) * 2 ^ k \<le> nearest_double n"
    by (simp add: nearest_double_def Let_def k_def)
  with low show ?thesis by linarith
qed

text \<open>Rounding never takes a number from above \<open>2^53\<close> to below it.\<close>

lemma double_round_large: "2 ^ 53 \<le> x \<Longrightarrow> 2 ^ 53 \<le> double_round x"
  using nearest_double_large [of x] by (simp add: double_round_def)

lemma double_round_ge:
  assumes "0 \<le> n" and "n \<le> 2 ^ 53" and "n \<le> x"
  shows "n \<le> double_round x"
proof (cases "x \<le> 2 ^ 53")
  case True
  with assms have "double_round x = x" by (intro double_round_exact) simp
  with assms show ?thesis by simp
next
  case False
  then have "2 ^ 53 \<le> double_round x" by (intro double_round_large) simp
  with assms show ?thesis by simp
qed


subsection \<open>Pagination: the windows while the total is a safe integer\<close>

text \<open>
  With \<open>start\<close> and \<open>end\<close> between 1 and \<open>2^53\<close> the array built by \<open>Array.from\<close>
  is the run of whole numbers from \<open>start\<close> to \<open>end\<close>.
\<close>

lemma array_from_upto:
  assumes "1 \<le> s" and "s \<le> 2 ^ 53" and "0 \<le> e" and "e \<le> 2 ^ 53"
  shows "array_from (js_add (js_sub e s) 1) (\<lambda>i. js_add s (int i)) = [s..e]"
proof (rule nth_equalityI)
  from assms have d: "js_sub e s = e - s"
    unfolding js_sub_def by (intro double_round_exact) simp
  from assms have l: "js_add (e - s) 1 = e - s + 1"
    unfolding js_add_def by (intro double_round_exact) simp
  show "length (array_from (js_add (js_sub e s) 1) (\<lambda>i. js_add s (int i))) = length [s..e]"
    by (simp add: array_from_def d l)
  fix i assume "i < length (array_from (js_add (js_sub e s) 1) (\<lambda>i. js_add s (int i)))"
  then have i: "i < nat (e - s + 1)"
    by (simp add: array_from_def d l)
  with assms have "js_add s (int i) = s + int i"
    unfolding js_add_def by (intro double_round_exact) simp
  with i show "array_from (js_add (js_sub e s) 1) (\<lambda>i. js_add s (int i)) ! i = [s..e] ! i"
    by (simp add: array_from_def d l)
qed

text \<open>
  The first start is exact or at least \<open>2^53\<close>; the upper bound of the end is exact or
  at least \<open>2^53 - 1\<close>, where the minimum with a safe total does not see it.
\<close>

lemma start0_cases:
  assumes "1 \<le> c"
  shows "(c - 2 \<le> 2 ^ 53 \<and> max 1 (js_sub c 2) = max 1 (c - 2))
         \<or> (2 ^ 53 < c - 2 \<and> 2 ^ 53 \<le> max 1 (js_sub c 2))"
proof (cases "c - 2 \<le> 2 ^ 53")
  case True
  with assms have "js_sub c 2 = c - 2"
    unfolding js_sub_def by (intro double_round_exact) simp
  with True show ?thesis by simp
next
  case False
  then have "2 ^ 53 \<le> js_sub c 2"
    unfolding js_sub_def by (intro double_round_large) simp
  with False show ?thesis by simp
qed

lemma end_bound:
  assumes "1 \<le> s0"
  shows "(s0 + 5 \<le> 2 ^ 53 \<and> js_sub (js_add s0 5) 1 = s0 + 4)
         \<or> (2 ^ 53 < s0 + 5 \<and> 2 ^ 53 - 1 \<le> js_sub (js_add s0 5) 1)"
proof (cases "s0 + 5 \<le> 2 ^ 53")
  case True
  with assms have a: "js_add s0 5 = s0 + 5"
    unfolding js_add_def by (intro double_round_exact) simp
  from True assms have "js_sub (s0 + 5) 1 = s0 + 5 - 1"
    unfolding js_sub_def by (intro double_round_exact) simp
  with a True show ?thesis by simp
next
  case False
  then have "2 ^ 53 \<le> js_add s0 5"
    unfolding js_add_def by (intro double_round_large) simp
  then have "2 ^ 53 - 1 \<le> js_sub (js_add s0 5) 1"
    unfolding js_sub_def by (intro double_round_ge) simp_all
  with False show ?thesis by simp
qed

lemma end_exact:
  assumes "1 \<le> c" and "1 \<le> t" and "t \<le> 2 ^ 53 - 1"
  shows "min t (js_sub (js_add (max 1 (js_sub c 2)) 5) 1) = min t (max 1 (c - 2) + 4)"
proof -
  define s0 where "s0 = max 1 (js_sub c 2)"
  have s01: "1 \<le> s0" by (simp add: s0_def)
  from start0_cases [OF assms(1)] end_bound [OF s01] assms(2,3)
  show ?thesis
    unfolding s0_def [symmetric] by auto
qed

lemma addons_start_exact:
  assumes "1 \<le> c" and "1 \<le> t" and "t \<le> 2 ^ 53 - 1"
    and "e = min t (max 1 (c - 2) + 4)"
  shows "max 1 (min (max 1 (js_sub c 2)) (js_add (js_sub e 5) 1))
           = max 1 (min (max 1 (c - 2)) (e - 4))"
proof -
  from assms have e: "1 \<le> e" "e \<le> 2 ^ 53 - 1" by simp_all
  then have "js_sub e 5 = e - 5"
    unfolding js_sub_def by (intro double_round_exact) simp
  moreover from e have "js_add (e - 5) 1 = e - 5 + 1"
    unfolding js_add_def by (intro double_round_exact) simp
  ultimately have r: "js_add (js_sub e 5) 1 = e - 4" by simp
  from start0_cases [OF assms(1)] e show ?thesis
    unfolding r by auto
qed

text \<open>
  The three windows in exact whole numbers. For the add-ons windows only the total has
  to be a safe integer (at most \<open>2^53 - 1\<close>); the current page may be any page from 1.
\<close>

lemma addons_window:
  assumes "1 \<le> c" and "1 \<le> t" and "t \<le> 2 ^ 53 - 1"
  shows "Pagination_pages_addons c t =
     [max 1 (min (max 1 (c - 2)) (min t (max 1 (c - 2) + 4) - 4)) .. min t (max 1 (c - 2) + 4)]"
proof -
  define e where "e = min t (max 1 (c - 2) + 4)"
  define s where "s = max 1 (min (max 1 (c - 2)) (e - 4))"
  from assms have eb: "0 \<le> e" "e \<le> 2 ^ 53" by (simp_all add: e_def)
  from eb have sb: "1 \<le> s" "s \<le> 2 ^ 53" by (simp_all add: s_def)
  have "Pagination_pages_addons c t
          = array_from (js_add (js_sub e s) 1) (\<lambda>i. js_add s (int i))"
    unfolding Pagination_pages_addons_def Let_def half_window
    by (simp only: end_exact [OF assms] addons_start_exact [OF assms e_def] e_def [symmetric]
        s_def [symmetric])
  also have "\<dots> = [s..e]"
    using sb eb by (rule array_from_upto)
  finally show ?thesis by (simp only: s_def e_def)
qed

lemma addons2_window:
  assumes "1 \<le> c" and "1 \<le> t" and "t \<le> 2 ^ 53 - 1"
  shows "Pagination_pages_addons2 c t =
     [max 1 (min (max 1 (c - 2)) (min t (max 1 (c - 2) + 4) - 4)) .. min t (max 1 (c - 2) + 4)]"
proof -
  have "Pagination_pages_addons2 c t = Pagination_pages_addons c t"
    by (simp only: Pagination_pages_addons2_def Pagination_pages_addons_def)
  with addons_window [OF assms] show ?thesis by simp
qed

lemma workspace_window:
  assumes "1 \<le> c" and "c \<le> 2 ^ 53 - 1" and "1 \<le> t" and "t \<le> 2 ^ 53 - 1"
  shows "Pagination_pages_workspace c t = [max 1 (c - 2) .. min t (max 1 (c - 2) + 4)]"
proof -
  define e where "e = min t (max 1 (c - 2) + 4)"
  define s where "s = max 1 (c - 2)"
  from assms have s0: "max 1 (js_sub c 2) = s"
    using start0_cases [of c] by (auto simp add: s_def)
  from assms have eb: "0 \<le> e" "e \<le> 2 ^ 53" by (simp_all add: e_def)
  from assms have sb: "1 \<le> s" "s \<le> 2 ^ 53" by (simp_all add: s_def)
  have "Pagination_pages_workspace c t
          = array_from (js_add (js_sub e s) 1) (\<lambda>i. js_add s (int i))"
    unfolding Pagination_pages_workspace_def Let_def half_window
    using end_exact [OF assms(1) assms(3) assms(4)]
    by (simp only: s0 e_def s_def [symmetric])
  also have "\<dots> = [s..e]"
    using sb eb by (rule array_from_upto)
  finally show ?thesis by (simp only: s_def e_def)
qed

lemma computeWindow_5:
  "computeWindow c t 5 =
     [max 1 (min (max 1 (c - 2)) (min t (max 1 (c - 2) + 4) - 4)) .. min t (max 1 (c - 2) + 4)]"
  unfolding computeWindow_def Let_def
  by (simp only: half_window) (simp add: add.commute)

lemma upto_nth_step:
  assumes "Suc i < length [s..e]"
  shows "[s..e] ! Suc i = [s..e] ! i + 1"
proof -
  from assms have "s + int (Suc i) \<le> e" by simp
  then show ?thesis by simp
qed

text \<open>
  What the add-ons windows do on every valid page of a safe total: the length of the
  window, and the window of a short list.
\<close>

lemma addons_length:
  assumes "1 \<le> c" and "c \<le> t" and "t \<le> 2 ^ 53 - 1"
  shows "length (Pagination_pages_addons c t) = nat (min 5 t)"
    and "length (Pagination_pages_addons2 c t) = nat (min 5 t)"
  using assms by (simp_all add: addons_window addons2_window)

lemma addons_short:
  assumes "t \<le> 5" and "1 \<le> c" and "c \<le> t"
  shows "Pagination_pages_addons c t = [1..t]"
    and "Pagination_pages_addons2 c t = [1..t]"
proof -
  from assms have b: "1 \<le> t" "t \<le> 2 ^ 53 - 1" by simp_all
  from assms have e: "min t (max 1 (c - 2) + 4) = t" by simp
  from assms have s: "max 1 (min (max 1 (c - 2)) (t - 4)) = 1" by simp
  show "Pagination_pages_addons c t = [1..t]"
    by (simp only: addons_window [OF assms(2) b] e s)
  show "Pagination_pages_addons2 c t = [1..t]"
    by (simp only: addons2_window [OF assms(2) b] e s)
qed

text \<open>
  Beyond the safe integers the sums round. With \<open>currentPage = 2^53 + 2\<close> and
  \<open>totalPages = 2^53 + 10\<close> all three components compute \<open>start = 2^53\<close>,
  \<open>end = 2^53 + 4\<close> and a length of 5, and \<open>start + 1\<close> and \<open>start + 3\<close> are not
  doubles: the pages repeat.
\<close>

lemma rounded_window:
  "Pagination_pages_addons 9007199254740994 9007199254741002 =
     [9007199254740992, 9007199254740992, 9007199254740994, 9007199254740996, 9007199254740996]"
  "Pagination_pages_addons2 9007199254740994 9007199254741002 =
     [9007199254740992, 9007199254740992, 9007199254740994, 9007199254740996, 9007199254740996]"
  "Pagination_pages_workspace 9007199254740994 9007199254741002 =
     [9007199254740992, 9007199254740992, 9007199254740994, 9007199254740996, 9007199254740996]"
  by code_simp+


subsection \<open>Claims about the pagination window\<close>

text \<open>
  C1, evaluated on the code. The specification asks for exactly \<open>min(5, totalPages)\<close> page
  numbers from both windows whenever \<open>1 \<le> currentPage \<le> totalPages\<close>. On the last
  of ten pages the add-ons window has the five pages 6 to 10, and the workspace window,
  which never moves its start back, has only the three pages 8 to 10.
\<close>

theorem C1_workspace_window_too_short:
  "Pagination_pages_workspace 10 10 = [8, 9, 10]
   \<and> length (Pagination_pages_workspace 10 10) \<noteq> nat (min 5 10)
   \<and> Pagination_pages_addons 10 10 = [6, 7, 8, 9, 10]
   \<and> length (Pagination_pages_addons 10 10) = nat (min 5 10)"
  by (simp add: workspace_window addons_window upto_rec1)

text \<open>
  C2, as the code has it. The specification says that for every \<open>currentPage \<ge> 1\<close> and
  \<open>totalPages \<ge> 1\<close> the add-ons window is the sequence \<open>[start..end]\<close> of its algorithm.
  At \<open>currentPage = 2^53 + 2\<close> and \<open>totalPages = 2^53 + 10\<close> the algorithm gives the five
  consecutive numbers from \<open>2^53\<close> to \<open>2^53 + 4\<close>, and both components return a list in
  which two of them are missing and two are repeated.
\<close>

theorem C2_rounded_pages_differ:
  "Pagination_pages_addons 9007199254740994 9007199254741002 =
     [9007199254740992, 9007199254740992, 9007199254740994, 9007199254740996, 9007199254740996]
   \<and> computeWindow 9007199254740994 9007199254741002 5 =
     [9007199254740992, 9007199254740993, 9007199254740994, 9007199254740995, 9007199254740996]
   \<and> Pagination_pages_addons 9007199254740994 9007199254741002
       \<noteq> computeWindow 9007199254740994 9007199254741002 5
   \<and> Pagination_pages_addons2 9007199254740994 9007199254741002
       \<noteq> computeWindow 9007199254740994 9007199254741002 5"
  by (simp add: rounded_window computeWindow_5 upto_rec1)

text \<open>
  C2, amended: for every \<open>currentPage \<ge> 1\<close> and every \<open>totalPages\<close> from 1 to
  \<open>2^53 - 1\<close>, the largest safe integer, the add-ons window (both components of the
  add-ons page) is the sequence \<open>[start..end]\<close> of the specification's algorithm at
  window size 5, which is \<open>half = 2\<close>, \<open>start0 = max(1, currentPage - half)\<close>,
  \<open>end = min(totalPages, start0 + 4)\<close>, \<open>start = max(1, min(start0, end - 4))\<close>.
\<close>

theorem C2_addons_refines_spec:
  assumes "1 \<le> currentPage" and "1 \<le> totalPages" and "totalPages \<le> 2 ^ 53 - 1"
  shows "Pagination_pages_addons currentPage totalPages = computeWindow currentPage totalPages 5
       \<and> Pagination_pages_addons2 currentPage totalPages = computeWindow currentPage totalPages 5
       \<and> computeWindow currentPage totalPages 5 =
           (let half = 2;
                start0 = max 1 (currentPage - half);
                end = min totalPages (start0 + 4);
                start = max 1 (min start0 (end - 4))
            in [start..end])"
proof -
  have "computeWindow currentPage totalPages 5 =
           (let half = 2;
                start0 = max 1 (currentPage - half);
                end = min totalPages (start0 + 4);
                start = max 1 (min start0 (end - 4))
            in [start..end])"
    by (simp add: computeWindow_5 Let_def)
  moreover have "Pagination_pages_addons currentPage totalPages
                   = computeWindow currentPage totalPages 5"
    by (simp only: addons_window [OF assms] computeWindow_5)
  moreover have "Pagination_pages_addons2 currentPage totalPages
                   = computeWindow currentPage totalPages 5"
    by (simp only: addons2_window [OF assms] computeWindow_5)
  ultimately show ?thesis
    by (simp only: simp_thms)
qed

theorem C2_addons_refines_spec_witness:
  "(1::int) \<le> 7 \<and> (1::int) \<le> 20 \<and> (20::int) \<le> 2 ^ 53 - 1
   \<and> Pagination_pages_addons 7 20 = [5, 6, 7, 8, 9]
   \<and> Pagination_pages_addons2 7 20 = [5, 6, 7, 8, 9]
   \<and> computeWindow 7 20 5 = [5, 6, 7, 8, 9]"
  using C2_addons_refines_spec [of 7 20] by (simp add: upto_rec1)

text \<open>
  C3, evaluated on the code. The specification asks for the full sequence \<open>[1..totalPages]\<close>
  from both windows whenever \<open>totalPages \<le> 5\<close>. On page 5 of 5 the add-ons window is
  1 to 5, and the workspace window starts at page 3.
\<close>

theorem C3_workspace_window_not_full:
  "Pagination_pages_workspace 5 5 = [3, 4, 5]
   \<and> Pagination_pages_workspace 5 5 \<noteq> [1..5]
   \<and> Pagination_pages_addons 5 5 = [1..5]"
  by (simp add: workspace_window addons_window upto_rec1)

text \<open>
  C9, as the code has it. The specification says that for every \<open>totalPages \<ge> 5\<close> and
  \<open>3 \<le> currentPage \<le> totalPages - 2\<close> the window is \<open>[currentPage-2 .. currentPage+2]\<close>.
  \<open>currentPage = 2^53 + 2\<close> and \<open>totalPages = 2^53 + 10\<close> are in that range, and none of
  the three components returns the five numbers from \<open>2^53\<close> to \<open>2^53 + 4\<close>.
\<close>

theorem C9_rounded_window_not_centred:
  "(5::int) \<le> 9007199254741002 \<and> (3::int) \<le> 9007199254740994
   \<and> (9007199254740994::int) \<le> 9007199254741002 - 2
   \<and> Pagination_pages_addons 9007199254740994 9007199254741002
       \<noteq> [9007199254740994 - 2 .. 9007199254740994 + 2]
   \<and> Pagination_pages_addons2 9007199254740994 9007199254741002
       \<noteq> [9007199254740994 - 2 .. 9007199254740994 + 2]
   \<and> Pagination_pages_workspace 9007199254740994 9007199254741002
       \<noteq> [9007199254740994 - 2 .. 9007199254740994 + 2]
   \<and> Pagination_pages_workspace 9007199254740994 9007199254741002 =
     [9007199254740992, 9007199254740992, 9007199254740994, 9007199254740996, 9007199254740996]"
  by (simp add: rounded_window upto_rec1)

text \<open>
  C9, amended: with at least five pages and at most \<open>2^53 - 1\<close>, the largest safe
  integer, and the current page at least two away from both ends, all three windows are
  the five pages centred on the current page.
\<close>

theorem C9_centred_window:
  assumes "5 \<le> totalPages" and "totalPages \<le> 2 ^ 53 - 1"
    and "3 \<le> currentPage" and "currentPage \<le> totalPages - 2"
  shows "Pagination_pages_addons currentPage totalPages = [currentPage - 2 .. currentPage + 2]
       \<and> Pagination_pages_addons2 currentPage totalPages = [currentPage - 2 .. currentPage + 2]
       \<and> Pagination_pages_workspace currentPage totalPages = [currentPage - 2 .. currentPage + 2]
       \<and> length (Pagination_pages_addons currentPage totalPages) = 5
       \<and> length (Pagination_pages_addons2 currentPage totalPages) = 5
       \<and> length (Pagination_pages_workspace currentPage totalPages) = 5"
proof -
  from assms have c: "1 \<le> currentPage" "currentPage \<le> 2 ^ 53 - 1"
    and t: "1 \<le> totalPages" by simp_all
  from assms have s0: "max 1 (currentPage - 2) = currentPage - 2" by simp
  from assms have e: "min totalPages (currentPage - 2 + 4) = currentPage + 2" by simp
  have s: "max 1 (min (currentPage - 2) (currentPage + 2 - 4)) = currentPage - 2"
    using assms by simp
  show ?thesis
    by (simp only: addons_window [OF c(1) t assms(2)] addons2_window [OF c(1) t assms(2)]
        workspace_window [OF c t assms(2)] s0 e s) simp
qed

theorem C9_centred_window_witness:
  "(5::int) \<le> 10 \<and> (10::int) \<le> 2 ^ 53 - 1 \<and> (3::int) \<le> 5 \<and> (5::int) \<le> 10 - 2
   \<and> Pagination_pages_addons 5 10 = [3, 4, 5, 6, 7]
   \<and> Pagination_pages_addons2 5 10 = [3, 4, 5, 6, 7]
   \<and> Pagination_pages_workspace 5 10 = [3, 4, 5, 6, 7]"
  using C9_centred_window [of 10 5] by (simp add: upto_rec1)

text \<open>
  C10, as the code has it. The specification says that for every \<open>currentPage \<ge> 1\<close> and
  \<open>totalPages \<ge> 1\<close> the add-ons window is strictly increasing and contiguous. At
  \<open>currentPage = 2^53 + 2\<close> and \<open>totalPages = 2^53 + 10\<close> its first two pages are equal.
\<close>

theorem C10_rounded_window_not_increasing:
  "(1::int) \<le> 9007199254740994 \<and> (1::int) \<le> 9007199254741002
   \<and> \<not> sorted_wrt (<) (Pagination_pages_addons 9007199254740994 9007199254741002)
   \<and> Pagination_pages_addons 9007199254740994 9007199254741002 ! 1
       = Pagination_pages_addons 9007199254740994 9007199254741002 ! 0
   \<and> \<not> sorted_wrt (<) (Pagination_pages_addons2 9007199254740994 9007199254741002)"
  by (simp add: rounded_window)

text \<open>
  C10, amended: for every \<open>currentPage \<ge> 1\<close> and every \<open>totalPages\<close> from 1 to
  \<open>2^53 - 1\<close>, the largest safe integer, also when the current page lies beyond the
  last one, the add-ons window is not empty, each page number is the previous one plus
  one (so the sequence is strictly increasing), and every page number lies between 1
  and \<open>totalPages\<close>.
\<close>

theorem C10_addons_window_safe:
  assumes "1 \<le> currentPage" and "1 \<le> totalPages" and "totalPages \<le> 2 ^ 53 - 1"
  shows "Pagination_pages_addons currentPage totalPages \<noteq> []
       \<and> (\<forall>i. Suc i < length (Pagination_pages_addons currentPage totalPages) \<longrightarrow>
              Pagination_pages_addons currentPage totalPages ! Suc i
                = Pagination_pages_addons currentPage totalPages ! i + 1)
       \<and> sorted_wrt (<) (Pagination_pages_addons currentPage totalPages)
       \<and> (\<forall>p \<in> set (Pagination_pages_addons currentPage totalPages). 1 \<le> p \<and> p \<le> totalPages)
       \<and> Pagination_pages_addons2 currentPage totalPages
            = Pagination_pages_addons currentPage totalPages"
proof -
  define e where "e = min totalPages (max 1 (currentPage - 2) + 4)"
  define s where "s = max 1 (min (max 1 (currentPage - 2)) (e - 4))"
  have w: "Pagination_pages_addons currentPage totalPages = [s..e]"
    by (simp only: addons_window [OF assms] s_def e_def)
  have w2: "Pagination_pages_addons2 currentPage totalPages = [s..e]"
    by (simp only: addons2_window [OF assms] s_def e_def)
  from assms have e1: "1 \<le> e" and et: "e \<le> totalPages"
    by (simp_all add: e_def)
  have s1: "1 \<le> s"
    by (simp add: s_def)
  from e1 have se: "s \<le> e"
    by (simp add: s_def)
  from se have "[s..e] \<noteq> []"
    by simp
  moreover have "\<forall>i. Suc i < length [s..e] \<longrightarrow> [s..e] ! Suc i = [s..e] ! i + 1"
    using upto_nth_step by blast
  moreover have "sorted_wrt (<) [s..e]"
    by (rule sorted_wrt_upto)
  moreover from s1 et have "\<forall>p \<in> set [s..e]. 1 \<le> p \<and> p \<le> totalPages"
    by auto
  ultimately show ?thesis
    by (simp only: w w2) simp
qed

theorem C10_addons_window_safe_witness:
  "(1::int) \<le> 10 \<and> (1::int) \<le> 3 \<and> (3::int) \<le> 2 ^ 53 - 1
   \<and> Pagination_pages_addons 10 3 = [1, 2, 3]
   \<and> Pagination_pages_addons 10 3 \<noteq> []
   \<and> sorted_wrt (<) (Pagination_pages_addons 10 3)
   \<and> set (Pagination_pages_addons 10 3) = {1, 2, 3}"
  using C10_addons_window_safe [of 10 3] by (simp add: addons_window upto_rec1)


subsection \<open>Status panel: pattern checks\<close>








subsection \<open>Claims about the status panel\<close>

text \<open>
  C4, as the code has it. The specification gives the classes of a CPU load \<open>v\<close> as
  \<open>ok\<close> iff \<open>v < 0.7\<close>, \<open>warn\<close> iff \<open>0.7 \<le> v < 1.5\<close>, \<open>bad\<close> iff \<open>v \<ge> 1.5\<close>, and
  those of a memory percentage with 80 and 95. A load string that does not parse gives
  the number NaN, for which every comparison is false: it is classified \<open>bad\<close> though it
  is not \<open>\<ge> 1.5\<close> (and not \<open>\<ge> 95\<close>).
\<close>

theorem C4_nan_is_bad:
  "cpuLevel NaN = Bad \<and> \<not> js_ge NaN (Num 1.5) \<and> memLevel NaN = Bad \<and> \<not> js_ge NaN (Num 95)"
  by (simp add: cpuLevel_def memLevel_def)

text \<open>
  C4, amended: for every number \<open>v\<close>, the CPU class is \<open>ok\<close> iff \<open>v < 0.7\<close>, \<open>warn\<close> iff
  \<open>0.7 \<le> v < 1.5\<close>, and \<open>bad\<close> iff \<open>v \<ge> 1.5\<close> or \<open>v\<close> is NaN; in particular 0.69 is
  \<open>ok\<close>, 0.7 is \<open>warn\<close> and 1.5 is \<open>bad\<close>. The memory class of \<open>p\<close> is \<open>ok\<close> iff
  \<open>p < 80\<close>, \<open>warn\<close> iff \<open>80 \<le> p < 95\<close>, and \<open>bad\<close> iff \<open>p \<ge> 95\<close> or \<open>p\<close> is NaN.
\<close>

theorem C4_classifier_thresholds:
  "(cpuLevel v = Ok) = js_lt v (Num 0.7)
   \<and> (cpuLevel v = Warn) = (js_ge v (Num 0.7) \<and> js_lt v (Num 1.5))
   \<and> (cpuLevel v = Bad) = (js_ge v (Num 1.5) \<or> v = NaN)
   \<and> cpuLevel (Num 0.69) = Ok \<and> cpuLevel (Num 0.7) = Warn \<and> cpuLevel (Num 1.5) = Bad
   \<and> (memLevel p = Ok) = js_lt p (Num 80)
   \<and> (memLevel p = Warn) = (js_ge p (Num 80) \<and> js_lt p (Num 95))
   \<and> (memLevel p = Bad) = (js_ge p (Num 95) \<or> p = NaN)"
proof -
  have c: "(cpuLevel v = Ok) = js_lt v (Num 0.7)"
    "(cpuLevel v = Warn) = (js_ge v (Num 0.7) \<and> js_lt v (Num 1.5))"
    "(cpuLevel v = Bad) = (js_ge v (Num 1.5) \<or> v = NaN)"
    by (cases v; simp add: cpuLevel_def)+
  have m: "(memLevel p = Ok) = js_lt p (Num 80)"
    "(memLevel p = Warn) = (js_ge p (Num 80) \<and> js_lt p (Num 95))"
    "(memLevel p = Bad) = (js_ge p (Num 95) \<or> p = NaN)"
    by (cases p; simp add: memLevel_def)+
  have e: "cpuLevel (Num 0.69) = Ok" "cpuLevel (Num 0.7) = Warn" "cpuLevel (Num 1.5) = Bad"
    by (simp_all add: cpuLevel_def)
  from c m e show ?thesis by (simp only: simp_thms)
qed

text \<open>
  The same thresholds read on finite values and on the infinities, with the order of
  the reals.
\<close>

lemma classifier_on_reals:
  "(cpuLevel (Num r) = Ok) = (r < 0.7)"
  "(cpuLevel (Num r) = Warn) = (0.7 \<le> r \<and> r < 1.5)"
  "(cpuLevel (Num r) = Bad) = (1.5 \<le> r)"
  "(memLevel (Num r) = Ok) = (r < 80)"
  "(memLevel (Num r) = Warn) = (80 \<le> r \<and> r < 95)"
  "(memLevel (Num r) = Bad) = (95 \<le> r)"
  "cpuLevel Infinity = Bad" "cpuLevel NegInfinity = Ok"
  "memLevel Infinity = Bad" "memLevel NegInfinity = Ok"
  by (simp_all add: cpuLevel_def memLevel_def)


text \<open>The pattern checks on some status strings.\<close>

lemma pattern_examples:
  "regex_test_i ''started'' ''Server Started on port 8850''"
  "regex_test_i ''connected'' ''MongoDB CONNECTED''"
  "\<not> regex_test_i ''connected'' ''connection refused''"
  "\<not> regex_test_i ''started'' []"
  by code_simp+

text \<open>
  The panel on a snapshot whose load does not parse: every entry is \<open>destructive\<close>,
  and the CPU entry shows \<open>N/A\<close>.
\<close>

lemma toStatuses_examples:
  "map st_variant
     (toStatuses (\<lambda>s. NaN) numToString toFixed0
        \<lparr> server = None, dbStatus = Some ''down'', cpuLoad = Some ''n/a'',
          memory = None, paymentWebhookStatus = None \<rparr>)
   = [Destructive, Destructive, Destructive, Destructive, Destructive]"
  "st_value
     (toStatuses (\<lambda>s. NaN) numToString toFixed0
        \<lparr> server = None, dbStatus = Some ''down'', cpuLoad = Some ''n/a'',
          memory = None, paymentWebhookStatus = None \<rparr> ! 2)
   = ''N/A''"
  by (simp_all add: toStatuses_def Let_def js_or_def pickVariant_def serverLevel_def serverUp_def
      dbLevel_def dbConnected_def hookLevel_def hookOk_def cpuLevel_def memLevel_def lower_def)

text \<open>The panel on a healthy snapshot, with stand-ins for the three conversions.\<close>

lemma toStatuses_healthy:
  "map st_variant
     (toStatuses (\<lambda>s. if s = ''0.42'' then Num 0.42 else if s = ''78.91'' then Num 78.91 else NaN)
        (\<lambda>n. ''0.42'') (\<lambda>n. ''79'')
        \<lparr> server = Some ''Server Started'', dbStatus = Some ''MongoDB Connected'',
          cpuLoad = Some ''0.42'',
          memory = Some \<lparr> totalGB = ''11.97'', usedGB = ''9.45'', usagePercent = ''78.91'' \<rparr>,
          paymentWebhookStatus =
            Some \<lparr> hook_success = True, hook_message = ''Webhook active'', webhookId = None,
                   webhookUrl = None, events = None \<rparr> \<rparr>)
   = [Success, Success, Success, Success, Success]"
  by code_simp

text \<open>
  The pattern check is a substring check: a database status of \<open>Disconnected\<close> contains
  \<open>connected\<close> and is classified \<open>ok\<close>.
\<close>

lemma dbLevel_disconnected:
  "dbLevel \<lparr> server = None, dbStatus = Some ''Disconnected'', cpuLoad = None,
            memory = None, paymentWebhookStatus = None \<rparr> = Ok"
  by code_simp


subsection \<open>Claims about the add-on forms\<close>

lemma not_finite_nonneg:
  "(\<not> (isFinite v \<and> js_ge v (Num 0))) = (\<not> isFinite v \<or> js_lt v (Num 0))"
  by (cases v) auto

text \<open>
  C6, as the code has it. The specification says that a submit which fails validation leaves
  the form state unchanged apart from the error message. The handler clears the success
  message before it validates: submitting a blank title while the message of an earlier
  successful creation is still shown removes that message.
\<close>

theorem C6_success_message_cleared:
  "success (fst (onSubmit (\<lambda>text. Num 5) Resolved
        \<lparr> form = \<lparr> form_title = ''   '', form_description = ''extra staff'', form_value = ''5'' \<rparr>,
          error = None, success = Some ''ADDON_CREATED_SUCCESSFULLY'', submitting = False \<rparr>))
     = None
   \<and> fst (onSubmit (\<lambda>text. Num 5) Resolved
        \<lparr> form = \<lparr> form_title = ''   '', form_description = ''extra staff'', form_value = ''5'' \<rparr>,
          error = None, success = Some ''ADDON_CREATED_SUCCESSFULLY'', submitting = False \<rparr>)
     \<noteq> \<lparr> form = \<lparr> form_title = ''   '', form_description = ''extra staff'', form_value = ''5'' \<rparr>,
          error = Some ''TITLE_IS_REQUIRED'', success = Some ''ADDON_CREATED_SUCCESSFULLY'',
          submitting = False \<rparr>"
  by (simp add: onSubmit_def Let_def trim_def isWhiteSpace_def)

text \<open>
  C6, amended: for every state of the create form in which the trimmed title is empty,
  the trimmed description is empty, or the value is not a finite non-negative number,
  \<open>onSubmit\<close> sets a validation error message (that of the first failing check) and
  returns with no effect: no request is sent, whatever the backend would have answered.
  The fields of the form and the \<open>submitting\<close> flag are unchanged, and the success
  message is cleared.
\<close>

theorem C6_create_validation_blocks:
  assumes "trim (form_title (form s)) = []
           \<or> trim (form_description (form s)) = []
           \<or> \<not> (isFinite (Number (form_value (form s)))
                 \<and> js_ge (Number (form_value (form s))) (Num 0))"
  shows "onSubmit Number reply s =
           (s\<lparr>error := Some (if trim (form_title (form s)) = [] then ''TITLE_IS_REQUIRED''
                              else if trim (form_description (form s)) = []
                                then ''DESCRIPTION_IS_REQUIRED''
                              else ''VALUE_MUST_BE_NON_NEGATIVE_NUMBER''),
               success := None\<rparr>, [])
       \<and> snd (onSubmit Number reply s) = []
       \<and> error (fst (onSubmit Number reply s)) \<noteq> None
       \<and> success (fst (onSubmit Number reply s)) = None
       \<and> form (fst (onSubmit Number reply s)) = form s
       \<and> submitting (fst (onSubmit Number reply s)) = submitting s"
proof -
  have eq: "onSubmit Number reply s =
           (s\<lparr>error := Some (if trim (form_title (form s)) = [] then ''TITLE_IS_REQUIRED''
                              else if trim (form_description (form s)) = []
                                then ''DESCRIPTION_IS_REQUIRED''
                              else ''VALUE_MUST_BE_NON_NEGATIVE_NUMBER''),
               success := None\<rparr>, [])"
  proof (cases "trim (form_title (form s)) = []")
    case True
    then show ?thesis by (simp add: onSubmit_def Let_def)
  next
    case noTitle: False
    show ?thesis
    proof (cases "trim (form_description (form s)) = []")
      case True
      with noTitle show ?thesis by (simp add: onSubmit_def Let_def)
    next
      case False
      with noTitle assms have "\<not> isFinite (Number (form_value (form s)))
          \<or> js_lt (Number (form_value (form s))) (Num 0)"
        by (simp only: not_finite_nonneg simp_thms)
      with noTitle False show ?thesis by (auto simp add: onSubmit_def Let_def)
    qed
  qed
  show ?thesis by (simp only: eq) simp
qed

theorem C6_create_validation_blocks_witness:
  "trim ''   '' = []
   \<and> onSubmit (\<lambda>text. Num 5) Resolved
        \<lparr> form = \<lparr> form_title = ''   '', form_description = ''extra staff'', form_value = ''5'' \<rparr>,
          error = None, success = None, submitting = False \<rparr>
      = (\<lparr> form = \<lparr> form_title = ''   '', form_description = ''extra staff'', form_value = ''5'' \<rparr>,
           error = Some ''TITLE_IS_REQUIRED'', success = None, submitting = False \<rparr>, [])"
  using C6_create_validation_blocks [of
      "\<lparr> form = \<lparr> form_title = ''   '', form_description = ''extra staff'', form_value = ''5'' \<rparr>,
         error = None, success = None, submitting = False \<rparr>"
      "\<lambda>text. Num 5" Resolved]
  by (simp add: trim_def isWhiteSpace_def)

text \<open>
  The other two checks on concrete forms: a blank description, a value that is not a
  number, and a negative value.
\<close>

lemma create_validation_examples:
  "onSubmit (\<lambda>text. Num 5) reply
     \<lparr> form = \<lparr> form_title = ''Staff'', form_description = '' '', form_value = ''5'' \<rparr>,
       error = None, success = None, submitting = False \<rparr>
   = (\<lparr> form = \<lparr> form_title = ''Staff'', form_description = '' '', form_value = ''5'' \<rparr>,
        error = Some ''DESCRIPTION_IS_REQUIRED'', success = None, submitting = False \<rparr>, [])"
  "onSubmit (\<lambda>text. NaN) reply
     \<lparr> form = \<lparr> form_title = ''Staff'', form_description = ''extra staff'', form_value = ''abc'' \<rparr>,
       error = None, success = None, submitting = False \<rparr>
   = (\<lparr> form = \<lparr> form_title = ''Staff'', form_description = ''extra staff'', form_value = ''abc'' \<rparr>,
        error = Some ''VALUE_MUST_BE_NON_NEGATIVE_NUMBER'', success = None, submitting = False \<rparr>, [])"
  "onSubmit (\<lambda>text. Num (- 1)) reply
     \<lparr> form = \<lparr> form_title = ''Staff'', form_description = ''extra staff'', form_value = ''-1'' \<rparr>,
       error = None, success = None, submitting = False \<rparr>
   = (\<lparr> form = \<lparr> form_title = ''Staff'', form_description = ''extra staff'', form_value = ''-1'' \<rparr>,
        error = Some ''VALUE_MUST_BE_NON_NEGATIVE_NUMBER'', success = None, submitting = False \<rparr>, [])"
  by (simp_all add: onSubmit_def Let_def trim_def isWhiteSpace_def)

text \<open>
  The other branch of the create form, so that the validation above is not all the
  handler ever does: a form that passes the three checks sends the create request with
  the trimmed texts and the parsed value.
\<close>

lemma create_valid_submits:
  assumes "trim (form_title (form s)) \<noteq> []" and "trim (form_description (form s)) \<noteq> []"
    and "isFinite (Number (form_value (form s)))"
    and "js_ge (Number (form_value (form s))) (Num 0)"
  shows "hd (snd (onSubmit Number reply s)) =
           Post ''/api/addons/create''
             \<lparr> body_title = trim (form_title (form s)),
               body_description = trim (form_description (form s)),
               body_value = Number (form_value (form s)) \<rparr>"
    and "snd (onSubmit Number reply s) \<noteq> []"
proof -
  from assms(3,4) have "\<not> (\<not> isFinite (Number (form_value (form s)))
          \<or> js_lt (Number (form_value (form s))) (Num 0))"
    using not_finite_nonneg by blast
  with assms(1,2) show "hd (snd (onSubmit Number reply s)) =
           Post ''/api/addons/create''
             \<lparr> body_title = trim (form_title (form s)),
               body_description = trim (form_description (form s)),
               body_value = Number (form_value (form s)) \<rparr>"
    and "snd (onSubmit Number reply s) \<noteq> []"
    by (cases reply; simp add: onSubmit_def Let_def)+
qed

text \<open>
  C7, evaluated on the code. The specification says that the edit form refuses a missing title
  or description before any network call. \<open>submit\<close> checks the add-on id and the value
  only: with an id and a finite non-negative value it sends the \<open>PATCH\<close> request with
  the title and the description as they stand, empty or not, and sets no error.
\<close>

theorem C7_edit_sends_texts_unchecked:
  assumes "edit_id sp \<noteq> []" and "isFinite (Number (edit_value s))"
    and "js_ge (Number (edit_value s)) (Num 0)"
  shows "hd (snd (submit Number sp Resolved s)) =
           Patch ''/api/addons/edit''
             \<lparr> addOnId = edit_id sp, patch_title = edit_title s,
               patch_description = edit_description s,
               patch_value = Number (edit_value s), patch_status = edit_status s \<rparr>
       \<and> snd (submit Number sp Resolved s) \<noteq> []
       \<and> edit_error (fst (submit Number sp Resolved s)) = None"
proof -
  from assms(2,3) have "\<not> (\<not> isFinite (Number (edit_value s))
          \<or> js_lt (Number (edit_value s)) (Num 0))"
    using not_finite_nonneg by blast
  with assms(1) show ?thesis
    by (simp add: submit_def Let_def)
qed

text \<open>
  The failing input of C7: the add-on \<open>a1\<close> with its title and description both
  cleared. The request goes out with two empty texts and the redirect is scheduled.
\<close>

theorem C7_edit_sends_empty_title:
  "submit (\<lambda>text. Num 5)
     [''id'' \<mapsto> ''a1'', ''title'' \<mapsto> ''Staff'', ''description'' \<mapsto> ''extra staff'',
      ''value'' \<mapsto> ''5'', ''status'' \<mapsto> ''ACTIVE'']
     Resolved
     \<lparr> edit_title = [], edit_description = [], edit_value = ''5'',
       edit_status = ''ACTIVE'', edit_error = None, saving = False \<rparr>
   = (\<lparr> edit_title = [], edit_description = [], edit_value = ''5'',
        edit_status = ''ACTIVE'', edit_error = None, saving = False \<rparr>,
      [Patch ''/api/addons/edit''
         \<lparr> addOnId = ''a1'', patch_title = [], patch_description = [],
           patch_value = Num 5, patch_status = ''ACTIVE'' \<rparr>,
       ReplaceAfter 1000 ''/addons''])"
  using C7_edit_sends_texts_unchecked [of
      "[''id'' \<mapsto> ''a1'', ''title'' \<mapsto> ''Staff'', ''description'' \<mapsto> ''extra staff'',
        ''value'' \<mapsto> ''5'', ''status'' \<mapsto> ''ACTIVE'']"
      "\<lambda>text. Num 5"
      "\<lparr> edit_title = [], edit_description = [], edit_value = ''5'',
         edit_status = ''ACTIVE'', edit_error = None, saving = False \<rparr>"]
  by (simp add: submit_def edit_id_def js_or_def Let_def)

text \<open>
  C8: in the edit form \<open>hasChanges\<close> is false exactly when the title, the description,
  the value and the status equal their initial values, which are the query parameters
  \<open>title\<close>, \<open>description\<close>, \<open>value\<close> (empty when missing) and \<open>status\<close> (\<open>ACTIVE\<close>
  when missing); whenever \<open>hasChanges\<close> is false the submit button is disabled; and it
  is false on the state of the first render.
\<close>

theorem C8_hasChanges_exact:
  "(\<not> hasChanges sp s) =
     (edit_title s = js_or (sp ''title'') []
      \<and> edit_description s = js_or (sp ''description'') []
      \<and> edit_value s = js_or (sp ''value'') []
      \<and> edit_status s = js_or (sp ''status'') ''ACTIVE'')
   \<and> (\<not> hasChanges sp s \<longrightarrow> submit_disabled sp s)
   \<and> \<not> hasChanges sp (edit_initial_state sp)"
  by (auto simp add: hasChanges_def submit_disabled_def edit_initial_state_def
      initialTitle_def initialDescription_def initialValue_def initialStatus_def)

theorem C8_hasChanges_exact_witness:
  "\<not> hasChanges [''id'' \<mapsto> ''a1'', ''title'' \<mapsto> ''Staff'', ''value'' \<mapsto> ''5'']
       \<lparr> edit_title = ''Staff'', edit_description = [], edit_value = ''5'',
         edit_status = ''ACTIVE'', edit_error = None, saving = False \<rparr>
   \<and> submit_disabled [''id'' \<mapsto> ''a1'', ''title'' \<mapsto> ''Staff'', ''value'' \<mapsto> ''5'']
       \<lparr> edit_title = ''Staff'', edit_description = [], edit_value = ''5'',
         edit_status = ''ACTIVE'', edit_error = None, saving = False \<rparr>
   \<and> hasChanges [''id'' \<mapsto> ''a1'', ''title'' \<mapsto> ''Staff'', ''value'' \<mapsto> ''5'']
       \<lparr> edit_title = ''Staff'', edit_description = [], edit_value = ''6'',
         edit_status = ''ACTIVE'', edit_error = None, saving = False \<rparr>"
  using C8_hasChanges_exact [of "[''id'' \<mapsto> ''a1'', ''title'' \<mapsto> ''Staff'', ''value'' \<mapsto> ''5'']"
       "\<lparr> edit_title = ''Staff'', edit_description = [], edit_value = ''5'',
         edit_status = ''ACTIVE'', edit_error = None, saving = False \<rparr>"]
  by (simp add: hasChanges_def js_or_def initialTitle_def initialDescription_def
      initialValue_def initialStatus_def)

end
